theory Spec2Isabelle
  imports Complex_Main
begin

section \<open>The encoder driver of \<^verbatim>\<open>encoder_driver.py\<close>\<close>

text \<open>
  The class \<^verbatim>\<open>EncoderDriver\<close> keeps five numeric attributes next to its hardware
  handles (pins, timer, timer channels). The handles are never read by the arithmetic, so
  the record holds the numeric attributes only. Python integers are unbounded, hence
  \<^typ>\<open>int\<close>.
\<close>

record encoder_driver =
  period :: int
  delta_val :: int
  last_tick :: int
  new_tick :: int
  true_position :: int

text \<open>
  \<^verbatim>\<open>__init__\<close>: the period is the constant \<^verbatim>\<open>2**16 - 1\<close>, every other numeric
  attribute starts at 0.
\<close>

definition init :: encoder_driver where
  "init = \<lparr>period = 2 ^ 16 - 1, delta_val = 0, last_tick = 0, new_tick = 0,
           true_position = 0\<rparr>"

text \<open>
  \<^verbatim>\<open>read\<close>: the only input from outside is the value of \<^verbatim>\<open>self.timer.counter()\<close>,
  which is the second argument here. The statements of the method are the bindings of the
  \<open>let\<close>, in the order of the source. The two thresholds are the products
  \<^verbatim>\<open>0.5*self.period\<close> and \<^verbatim>\<open>-0.5*self.period\<close>; in \<open>read\<close> they are taken exactly,
  in the reals. The interpreter first converts the period to a float; \<open>read_checked\<close>
  below has that conversion, with its rounding and its error, and agrees with \<open>read\<close> for
  every period below \<open>2 ^ 53\<close> in magnitude (lemma \<open>read_checked_exact\<close>), so for the
  period 65535 of the constructor. The result pairs the updated object with the returned
  position.
\<close>

definition read :: "encoder_driver \<Rightarrow> int \<Rightarrow> encoder_driver \<times> int" where
  "read self counter =
    (let self = self\<lparr>last_tick := new_tick self\<rparr>;
         self = self\<lparr>new_tick := counter\<rparr>;
         self = self\<lparr>delta_val := new_tick self - last_tick self\<rparr>;
         self = (if real_of_int (delta_val self) > 0.5 * real_of_int (period self)
                 then self\<lparr>delta_val := delta_val self - period self\<rparr>
                 else if real_of_int (delta_val self) < - 0.5 * real_of_int (period self)
                 then self\<lparr>delta_val := delta_val self + period self\<rparr>
                 else self);
         self = self\<lparr>true_position := true_position self + delta_val self\<rparr>
     in (self, true_position self))"

text \<open>\<^verbatim>\<open>zero\<close>: one assignment.\<close>

definition zero :: "encoder_driver \<Rightarrow> encoder_driver" where
  "zero self = self\<lparr>true_position := 0\<rparr>"

subsection \<open>The method with the interpreter's float conversion\<close>

text \<open>
  The only operation of the class that can raise is the product of the float 0.5 and the
  integer period: the integer operand is converted to a double, to the nearest one with
  ties to even, and the conversion raises \<^verbatim>\<open>OverflowError\<close> when that double is not
  finite. Integer arithmetic is unbounded, attribute assignment and the comparison of an
  integer with a float (which is exact, at any size) do not raise.
\<close>

datatype error = OverflowError

text \<open>The two constants of the double format: 53 significant bits, exponents up to 1024.\<close>

definition DBL_MANT_DIG :: nat where
  "DBL_MANT_DIG = 53"

definition DBL_MAX_EXP :: nat where
  "DBL_MAX_EXP = 1024"

text \<open>The number of bits of a natural number (\<^verbatim>\<open>int.bit_length\<close>).\<close>

fun bit_length :: "nat \<Rightarrow> nat" where
  "bit_length n = (if n = 0 then 0 else Suc (bit_length (n div 2)))"

text \<open>
  Rounding a magnitude to 53 significant bits: \<open>e\<close> bits are cut off, \<open>q\<close> are the bits
  kept and \<open>r\<close> the bits cut; above the half, or at the half with \<open>q\<close> odd, \<open>q\<close> goes
  up by one.
\<close>

definition round_double :: "nat \<Rightarrow> nat" where
  "round_double n =
    (if n < 2 ^ DBL_MANT_DIG then n
     else (let e = bit_length n - DBL_MANT_DIG; q = n div 2 ^ e; r = n mod 2 ^ e
           in (if 2 ^ e < 2 * r \<or> (2 * r = 2 ^ e \<and> odd q) then q + 1 else q) * 2 ^ e))"

text \<open>The conversion: the rounded magnitude with the sign, or the error.\<close>

definition float_of_int :: "int \<Rightarrow> error + real" where
  "float_of_int p =
    (let v = round_double (nat \<bar>p\<bar>)
     in if 2 ^ DBL_MAX_EXP \<le> v then Inl OverflowError
        else Inr (if p < 0 then - real v else real v))"

text \<open>
  \<^verbatim>\<open>read\<close> with the conversion: lines 66 to 70 assign three attributes, then the product
  of line 73 converts the period. When the conversion raises, the object keeps those three
  assignments and the error leaves the method; otherwise the comparisons use half of the
  converted period (halving a double of integer value is exact) and the corrections add or
  subtract the integer period itself.
\<close>

definition read_checked ::
  "encoder_driver \<Rightarrow> int \<Rightarrow> (error \<times> encoder_driver) + (encoder_driver \<times> int)" where
  "read_checked self counter =
    (let self = self\<lparr>last_tick := new_tick self\<rparr>;
         self = self\<lparr>new_tick := counter\<rparr>;
         self = self\<lparr>delta_val := new_tick self - last_tick self\<rparr>
     in case float_of_int (period self) of
          Inl e \<Rightarrow> Inl (e, self)
        | Inr fperiod \<Rightarrow>
            (let self = (if real_of_int (delta_val self) > 0.5 * fperiod
                         then self\<lparr>delta_val := delta_val self - period self\<rparr>
                         else if real_of_int (delta_val self) < - 0.5 * fperiod
                         then self\<lparr>delta_val := delta_val self + period self\<rparr>
                         else self);
                 self = self\<lparr>true_position := true_position self + delta_val self\<rparr>
             in Inr (self, true_position self)))"

text \<open>\<^verbatim>\<open>zero\<close> has one assignment of a constant and no operation that can raise.\<close>

definition zero_checked :: "encoder_driver \<Rightarrow> (error \<times> encoder_driver) + encoder_driver" where
  "zero_checked self = Inr (self\<lparr>true_position := 0\<rparr>)"

text \<open>
  The polling loop of the script calls \<^verbatim>\<open>read\<close> again and again; \<open>reads\<close> is that
  loop over a finite list of successive counter values, keeping the object.
\<close>

fun reads :: "encoder_driver \<Rightarrow> int list \<Rightarrow> encoder_driver" where
  "reads self [] = self"
| "reads self (c # cs) = reads (fst (read self c)) cs"

subsection \<open>Vocabulary of the properties\<close>

text \<open>
  \<open>steps_small m a cs\<close>: walking from the reading \<open>a\<close> through the readings \<open>cs\<close>,
  every step is smaller than half of \<open>m\<close> in magnitude.
\<close>

fun steps_small :: "int \<Rightarrow> int \<Rightarrow> int list \<Rightarrow> bool" where
  "steps_small m a [] = True"
| "steps_small m a (b # bs) = (2 * \<bar>b - a\<bar> < m \<and> steps_small m b bs)"

text \<open>The same condition on the pairs inside a list only (nothing is asked of its head).\<close>

fun pairs_small :: "int \<Rightarrow> int list \<Rightarrow> bool" where
  "pairs_small m [] = True"
| "pairs_small m (c # cs) = steps_small m c cs"

text \<open>The plain sum of the differences along the walk from \<open>a\<close> through \<open>cs\<close>.\<close>

fun sum_deltas :: "int \<Rightarrow> int list \<Rightarrow> int" where
  "sum_deltas a [] = 0"
| "sum_deltas a (b # bs) = (b - a) + sum_deltas b bs"

text \<open>Both stored readings lie in \<open>[0, m)\<close>.\<close>

definition raw_inv :: "int \<Rightarrow> encoder_driver \<Rightarrow> bool" where
  "raw_inv m self =
    (0 \<le> new_tick self \<and> new_tick self < m \<and> 0 \<le> last_tick self \<and> last_tick self < m)"

text \<open>
  The delta after the correction, written with integers: \<open>d\<close> is the difference of the two
  readings and \<open>p\<close> the period.
\<close>

definition corrected :: "int \<Rightarrow> int \<Rightarrow> int" where
  "corrected p d = (if p < 2 * d then d - p else if 2 * d < - p then d + p else d)"

section \<open>Basic facts\<close>

lemma half_gt_iff: "(0.5 * real_of_int p < real_of_int d) = (p < 2 * d)"
proof -
  have "(0.5 * real_of_int p < real_of_int d) = (real_of_int p < real_of_int (2 * d))"
    by auto
  also have "\<dots> = (p < 2 * d)"
    by (rule of_int_less_iff)
  finally show ?thesis .
qed

lemma half_lt_iff: "(real_of_int d < - 0.5 * real_of_int p) = (2 * d < - p)"
proof -
  have "(real_of_int d < - 0.5 * real_of_int p) = (real_of_int (2 * d) < real_of_int (- p))"
    by auto
  also have "\<dots> = (2 * d < - p)"
    by (rule of_int_less_iff)
  finally show ?thesis .
qed

lemma read_eq:
  "read s c =
    (s\<lparr>last_tick := new_tick s, new_tick := c,
       delta_val := corrected (period s) (c - new_tick s),
       true_position := true_position s + corrected (period s) (c - new_tick s)\<rparr>,
     true_position s + corrected (period s) (c - new_tick s))"
  unfolding read_def Let_def corrected_def
  by (simp only: half_gt_iff half_lt_iff) simp

lemma read_fields:
  "period (fst (read s c)) = period s"
  "last_tick (fst (read s c)) = new_tick s"
  "new_tick (fst (read s c)) = c"
  "delta_val (fst (read s c)) = corrected (period s) (c - new_tick s)"
  "true_position (fst (read s c)) = true_position s + corrected (period s) (c - new_tick s)"
  "snd (read s c) = true_position s + corrected (period s) (c - new_tick s)"
  by (simp_all add: read_eq)

lemma init_fields:
  "period init = 65535" "delta_val init = 0" "last_tick init = 0" "new_tick init = 0"
  "true_position init = 0"
  by (simp_all add: init_def)

lemma zero_fields:
  "period (zero s) = period s" "delta_val (zero s) = delta_val s"
  "last_tick (zero s) = last_tick s" "new_tick (zero s) = new_tick s"
  "true_position (zero s) = 0"
  by (simp_all add: zero_def)

lemma corrected_small: "m \<le> p + 1 \<Longrightarrow> 2 * \<bar>d\<bar> < m \<Longrightarrow> corrected p d = d"
  unfolding corrected_def by (simp split: if_splits) linarith

lemma corrected_tie_even:
  "0 \<le> p \<Longrightarrow> even p \<Longrightarrow> corrected p (p div 2) = p div 2"
  unfolding corrected_def by (simp split: if_splits)

lemma sum_deltas_last: "sum_deltas a cs = last (a # cs) - a"
  by (induction cs arbitrary: a) simp_all

text \<open>
  Along a walk of small steps no correction fires, so the position moves by the plain sum
  of the differences. The object changes at every step, hence the generalisation.
\<close>

lemma reads_small_steps:
  "m \<le> period s + 1 \<Longrightarrow> steps_small m (new_tick s) cs \<Longrightarrow>
    true_position (reads s cs) = true_position s + sum_deltas (new_tick s) cs"
proof (induction cs arbitrary: s)
  case Nil
  show ?case by simp
next
  case (Cons c cs)
  let ?s' = "fst (read s c)"
  from Cons.prems have small: "2 * \<bar>c - new_tick s\<bar> < m" and rest: "steps_small m c cs"
    by simp_all
  have step: "corrected (period s) (c - new_tick s) = c - new_tick s"
    using Cons.prems(1) small by (rule corrected_small)
  have "true_position (reads ?s' cs) = true_position ?s' + sum_deltas (new_tick ?s') cs"
    using Cons.prems(1) rest by (intro Cons.IH) (simp_all add: read_fields)
  then show ?case
    by (simp add: read_fields step)
qed

subsection \<open>The float conversion\<close>

declare bit_length.simps [simp del]

lemma bit_length_power: "bit_length (2 ^ k) = Suc k"
proof (induction k)
  case 0
  have "bit_length 1 = Suc (bit_length 0)"
    by (subst bit_length.simps) simp
  also have "bit_length 0 = 0"
    by (subst bit_length.simps) simp
  finally show ?case by simp
next
  case (Suc k)
  have "bit_length (2 ^ Suc k) = Suc (bit_length (2 ^ Suc k div 2))"
    by (subst bit_length.simps) simp
  with Suc show ?case by simp
qed

lemma float_of_int_exact:
  assumes "\<bar>p\<bar> < 2 ^ 53"
  shows "float_of_int p = Inr (real_of_int p)"
proof -
  have n: "nat \<bar>p\<bar> < 2 ^ DBL_MANT_DIG"
    using assms by (simp add: nat_less_iff DBL_MANT_DIG_def)
  have "(2::nat) ^ DBL_MANT_DIG \<le> 2 ^ DBL_MAX_EXP"
    by (rule power_increasing) (simp_all add: DBL_MANT_DIG_def DBL_MAX_EXP_def)
  with n have fits: "\<not> 2 ^ DBL_MAX_EXP \<le> nat \<bar>p\<bar>"
    by (simp only: not_le less_le_trans)
  have r: "round_double (nat \<bar>p\<bar>) = nat \<bar>p\<bar>"
    using n by (simp only: round_double_def if_True)
  have v: "(if p < 0 then - real (nat \<bar>p\<bar>) else real (nat \<bar>p\<bar>)) = real_of_int p"
    by simp
  show ?thesis
    unfolding float_of_int_def Let_def r using fits v by (simp only: if_False)
qed

lemma round_double_power:
  assumes "DBL_MANT_DIG \<le> k"
  shows "round_double (2 ^ k) = 2 ^ k"
proof -
  let ?e = "Suc k - DBL_MANT_DIG"
  have pos: "1 < DBL_MANT_DIG"
    by (simp add: DBL_MANT_DIG_def)
  have "(2::nat) ^ DBL_MANT_DIG \<le> 2 ^ k"
    using assms by (intro power_increasing) simp_all
  then have big: "\<not> (2::nat) ^ k < 2 ^ DBL_MANT_DIG"
    by (simp only: not_less)
  have le: "?e \<le> k"
    using pos by simp
  have split: "(2::nat) ^ k = 2 ^ (k - ?e) * 2 ^ ?e"
    using le by (simp add: power_add [symmetric])
  have q: "(2::nat) ^ k div 2 ^ ?e = 2 ^ (k - ?e)"
    by (subst split) simp
  have r: "(2::nat) ^ k mod 2 ^ ?e = 0"
    by (subst split) simp
  have ev: "even ((2::nat) ^ (k - ?e))"
    using assms pos by simp
  show ?thesis
    unfolding round_double_def Let_def bit_length_power q r
    using big split ev by simp
qed

lemma float_of_int_overflow: "float_of_int (2 ^ DBL_MAX_EXP) = Inl OverflowError"
proof -
  have n: "nat \<bar>(2::int) ^ DBL_MAX_EXP\<bar> = 2 ^ DBL_MAX_EXP"
    by (simp add: nat_power_eq)
  have r: "round_double (2 ^ DBL_MAX_EXP) = 2 ^ DBL_MAX_EXP"
    by (rule round_double_power) (simp add: DBL_MANT_DIG_def DBL_MAX_EXP_def)
  show ?thesis
    unfolding float_of_int_def Let_def n r by simp
qed

text \<open>
  Below \<open>2 ^ 53\<close> the conversion is exact and never raises, so the method with the
  conversion computes what \<open>read\<close> computes.
\<close>

lemma read_checked_exact: "\<bar>period s\<bar> < 2 ^ 53 \<Longrightarrow> read_checked s c = Inr (read s c)"
  by (simp add: read_checked_def read_def Let_def float_of_int_exact)

text \<open>The error is live: a period of \<open>2 ^ 1024\<close> makes the method raise.\<close>

lemma read_checked_raises:
  assumes "period s = 2 ^ DBL_MAX_EXP"
  shows "read_checked s c =
    Inl (OverflowError, s\<lparr>last_tick := new_tick s, new_tick := c, delta_val := c - new_tick s\<rparr>)"
proof -
  have "float_of_int (period s) = Inl OverflowError"
    unfolding assms by (rule float_of_int_overflow)
  then show ?thesis
    by (simp add: read_checked_def Let_def)
qed

section \<open>Claims about one call of \<^verbatim>\<open>read\<close>\<close>

text \<open>
  C1. The modulus of the description is the wrap period of the 16-bit counter, 65536.
  \<^verbatim>\<open>read\<close> takes the difference of the counter value and the stored reading as a
  signed integer, adds the corrected delta to \<^verbatim>\<open>true_position\<close> without saturation or
  reduction, stores the counter value and returns the new position; but it corrects by
  the period 65535 and against the thresholds \<open>\<plusminus>32767.5\<close>. On a new object the
  reading 40000 gives the corrected delta \<open>40000 - 65535\<close>, not \<open>40000 - 65536\<close>;
  the reading 32768, which does not exceed half of 65536, is corrected all the same; and
  the counter's step back from 0 to 65535 and forward again to 0 gives the deltas 0 and 0,
  not \<open>-1\<close> and 1.
\<close>

theorem read_corrects_by_period:
  "delta_val (fst (read init 40000)) = 40000 - 65535
   \<and> delta_val (fst (read init 40000)) \<noteq> 40000 - 65536
   \<and> snd (read init 40000) = - 25535
   \<and> \<not> (32768::int) > 65536 div 2
   \<and> delta_val (fst (read init 32768)) \<noteq> 32768
   \<and> new_tick (fst (read init 65535)) = 65535
   \<and> delta_val (fst (read init 65535)) = 0
   \<and> snd (read init 65535) = 0
   \<and> delta_val (fst (read (fst (read init 65535)) 0)) = 0
   \<and> snd (read (fst (read init 65535)) 0) = 0"
  by (simp add: read_fields init_fields corrected_def)

text \<open>
  C2. The description's two examples for a 16-bit counter (range 65536). The constructor
  sets the period to \<open>2 ^ 16 - 1\<close>, and \<^verbatim>\<open>read\<close> corrects by that period: after the
  reading 65530 the counter value 5 gives the corrected delta 10 (eleven ticks have
  passed), and after the reading 5 the counter value 65530 gives \<open>-10\<close> (eleven ticks
  back). Each wrap of the counter loses one tick.
\<close>

theorem read_wrap_16bit_loses_tick:
  "new_tick (fst (read init 65530)) = 65530
   \<and> true_position (fst (read init 65530)) = - 5
   \<and> delta_val (fst (read (fst (read init 65530)) 5)) = 10
   \<and> snd (read (fst (read init 65530)) 5) = true_position (fst (read init 65530)) + 10
   \<and> new_tick (fst (read init 5)) = 5
   \<and> true_position (fst (read init 5)) = 5
   \<and> delta_val (fst (read (fst (read init 5)) 65530)) = - 10
   \<and> snd (read (fst (read init 5)) 65530) = true_position (fst (read init 5)) - 10"
  by (simp add: read_fields init_fields corrected_def)

text \<open>
  C4. Half of the 16-bit counter's range is 32768, and the range 65536 is even. The
  thresholds of \<^verbatim>\<open>read\<close> are \<open>\<plusminus>32767.5\<close>, half of the period 65535, so a raw delta
  of 32768 does fire the first correction: the delta becomes \<open>-32767\<close> and the
  position moves by \<open>-32767\<close>, not by 32768.
\<close>

theorem read_half_range_corrected:
  "(65536::int) mod 2 = 0
   \<and> 32768 - new_tick init = (65536::int) div 2
   \<and> delta_val (fst (read init 32768)) = - 32767
   \<and> true_position (fst (read init 32768)) = true_position init - 32767
   \<and> snd (read init 32768) = - 32767"
  by (simp add: read_fields init_fields corrected_def)

text \<open>
  C6. For every object and every counter value \<open>r\<close>, reading \<open>r\<close> twice in a row gives
  the corrected delta 0 at the second call, which leaves the position where the first call
  put it and returns the same value. The period is any value from 0 up to \<open>2 ^ 53\<close>, the
  range on which \<open>read\<close> is the method exactly; the readings are not restricted, so the
  top reading 65535 of the counter is included.
\<close>

theorem read_twice_same:
  assumes "0 \<le> period s" and "period s < 2 ^ 53"
  shows "delta_val (fst (read (fst (read s r)) r)) = 0
    \<and> true_position (fst (read (fst (read s r)) r)) = true_position (fst (read s r))
    \<and> snd (read (fst (read s r)) r) = snd (read s r)"
  using assms(1) by (simp add: read_fields corrected_def)

theorem read_twice_same_witness:
  "0 \<le> period init \<and> period init < 2 ^ 53
   \<and> delta_val (fst (read (fst (read init 65535)) 65535)) = 0
   \<and> true_position (fst (read (fst (read init 65535)) 65535)) = 0
   \<and> snd (read (fst (read init 65535)) 65535) = snd (read init 65535)
   \<and> delta_val (fst (read (fst (read init 40000)) 40000)) = 0
   \<and> true_position (fst (read (fst (read init 40000)) 40000)) = - 25535"
  using read_twice_same [of init 65535] read_twice_same [of init 40000]
  by (simp add: read_fields init_fields corrected_def)

text \<open>
  C7. For any two counter values \<open>a\<close> and \<open>b\<close> and two objects of the same period, one
  holding \<open>a\<close> and one holding \<open>b\<close> as stored reading: the corrected delta of reading
  \<open>a\<close> after \<open>b\<close> is the negation of the corrected delta of reading \<open>b\<close> after \<open>a\<close>.
  The period ranges as in C6 and the readings are not restricted, so the pair 65535 and 0
  at the counter's wrap is included.
\<close>

theorem read_reverse_negates:
  assumes "0 \<le> period s" and "period s < 2 ^ 53" and "period t = period s"
    and "new_tick s = a" and "new_tick t = b"
  shows "delta_val (fst (read t a)) = - delta_val (fst (read s b))"
  using assms(1,3,4,5) by (simp add: read_fields corrected_def)

theorem read_reverse_negates_witness:
  "0 \<le> period (fst (read init 65535)) \<and> period (fst (read init 65535)) < 2 ^ 53
   \<and> period (fst (read init 0)) = period (fst (read init 65535))
   \<and> new_tick (fst (read init 65535)) = 65535
   \<and> new_tick (fst (read init 0)) = 0
   \<and> delta_val (fst (read (fst (read init 65535)) 0)) = 0
   \<and> delta_val (fst (read (fst (read init 0)) 65535)) = 0
   \<and> delta_val (fst (read (fst (read init 65530)) 5)) = 10
   \<and> delta_val (fst (read (fst (read init 5)) 65530)) = - 10"
  using read_reverse_negates [of "fst (read init 65535)" "fst (read init 0)" 65535 0]
    read_reverse_negates [of "fst (read init 65530)" "fst (read init 5)" 65530 5]
  by (simp add: read_fields init_fields corrected_def)

text \<open>
  C10. For an object with the constructor's period \<open>2 ^ 16 - 1\<close>, a stored reading in
  \<open>[0, 2 ^ 16)\<close> and a counter value in \<open>[0, 2 ^ 16)\<close>, one call of \<^verbatim>\<open>read\<close> moves the
  position by at most 32767 in magnitude, with or without a correction.
\<close>

theorem read_step_bound:
  assumes "period s = 2 ^ 16 - 1"
    and "0 \<le> new_tick s" and "new_tick s < 2 ^ 16"
    and "0 \<le> c" and "c < 2 ^ 16"
  shows "\<bar>true_position (fst (read s c)) - true_position s\<bar> \<le> 32767
    \<and> \<bar>delta_val (fst (read s c))\<bar> \<le> 32767
    \<and> \<bar>snd (read s c) - true_position s\<bar> \<le> 32767"
proof -
  let ?d = "c - new_tick s"
  have range: "- 65535 \<le> ?d" "?d \<le> 65535"
    using assms by simp_all
  have "\<bar>corrected 65535 ?d\<bar> \<le> 32767"
    unfolding corrected_def using range by (simp split: if_splits) linarith
  then show ?thesis
    using assms(1) by (simp add: read_fields)
qed

theorem read_step_bound_witness:
  "period init = 2 ^ 16 - 1 \<and> 0 \<le> new_tick init \<and> new_tick init < 2 ^ 16
   \<and> (0::int) \<le> 32768 \<and> (32768::int) < 2 ^ 16
   \<and> true_position (fst (read init 32768)) - true_position init = - 32767
   \<and> \<bar>true_position (fst (read init 32768)) - true_position init\<bar> \<le> 32767"
  using read_step_bound [of init 32768]
  by (simp add: read_fields init_fields corrected_def)

section \<open>Claims about \<^verbatim>\<open>zero\<close>, the constructor and errors\<close>

text \<open>
  C3. For every object, \<^verbatim>\<open>zero\<close> sets \<^verbatim>\<open>true_position\<close> to 0 and changes no other
  attribute; the stored reading stays, so the next \<^verbatim>\<open>read\<close> takes its delta from the
  real previous reading and computes the same delta as without the reset. In particular,
  from a new object: reading 100 returns 100, \<^verbatim>\<open>zero\<close> makes the position 0 and keeps
  the stored reading 100, and reading 110 then computes the delta \<open>110 - 100\<close> and
  returns 10.
\<close>

theorem zero_keeps_readings:
  "zero s = s\<lparr>true_position := 0\<rparr>
   \<and> true_position (zero s) = 0
   \<and> new_tick (zero s) = new_tick s
   \<and> last_tick (zero s) = last_tick s
   \<and> delta_val (zero s) = delta_val s
   \<and> period (zero s) = period s
   \<and> last_tick (fst (read (zero s) c)) = new_tick s
   \<and> delta_val (fst (read (zero s) c)) = delta_val (fst (read s c))
   \<and> snd (read (zero s) c) = delta_val (fst (read s c))
   \<and> snd (read init 100) = 100
   \<and> true_position (zero (fst (read init 100))) = 0
   \<and> new_tick (zero (fst (read init 100))) = 100
   \<and> delta_val (fst (read (zero (fst (read init 100))) 110)) = 110 - 100
   \<and> snd (read (zero (fst (read init 100))) 110) = 10"
  by (simp add: read_fields init_fields zero_fields corrected_def zero_def)

text \<open>
  C8. In the method with the float conversion, where a call either raises or returns: for
  every object whose period is below \<open>2 ^ 53\<close> in magnitude (every object the
  constructor and the two methods produce has the period 65535) and every integer counter
  value, in the counter's range or not, \<^verbatim>\<open>read\<close> does not raise and returns what
  \<open>read\<close> computes; \<^verbatim>\<open>zero\<close> does not raise for any object. A counter value outside
  the range is not detected: 70000 on a new object is stored and gives the position 4465.
\<close>

theorem read_zero_never_raise:
  assumes "\<bar>period s\<bar> < 2 ^ 53"
  shows "read_checked s c = Inr (read s c) \<and> zero_checked s = Inr (zero s)"
  using assms by (simp add: read_checked_exact zero_checked_def zero_def)

theorem read_zero_never_raise_witness:
  "\<bar>period init\<bar> < 2 ^ 53
   \<and> read_checked init 70000 = Inr (read init 70000)
   \<and> new_tick (fst (read init 70000)) = 70000
   \<and> snd (read init 70000) = 4465
   \<and> zero_checked init = Inr (zero init)"
  using read_zero_never_raise [of init 70000]
  by (simp add: read_fields init_fields corrected_def)

text \<open>
  C9. The constructor sets the stored readings and the position to 0. That the stored
  readings lie in \<open>[0, m)\<close> holds for the new object (for its own period and for every
  positive \<open>m\<close>), is kept by every \<^verbatim>\<open>read\<close> of a counter value in \<open>[0, m)\<close>, and is
  kept by \<^verbatim>\<open>zero\<close>.
\<close>

theorem raw_inv_preserved:
  "new_tick init = 0 \<and> last_tick init = 0 \<and> true_position init = 0
   \<and> raw_inv (period init) init
   \<and> (0 < m \<longrightarrow> raw_inv m init)
   \<and> (raw_inv m s \<and> 0 \<le> c \<and> c < m \<longrightarrow> raw_inv m (fst (read s c)))
   \<and> (raw_inv m s \<longrightarrow> raw_inv m (zero s))"
  by (simp add: raw_inv_def read_fields init_fields zero_fields)

theorem raw_inv_preserved_witness:
  "(0::int) < 65536 \<and> raw_inv 65536 init \<and> (0::int) \<le> 65535 \<and> (65535::int) < 65536
   \<and> raw_inv 65536 (fst (read init 65535))
   \<and> raw_inv 65536 (zero init)
   \<and> raw_inv 65535 init \<and> raw_inv 65535 (fst (read init 100))
   \<and> raw_inv 65535 (zero (fst (read init 100)))"
  using raw_inv_preserved [of 65536 init 65535] raw_inv_preserved [of 65535 init 100]
    raw_inv_preserved [of 65535 "fst (read init 100)" 0]
  by (simp add: init_fields)

section \<open>Claims about a run of calls\<close>

text \<open>
  C5, as stated, fails. The readings 40000 and 40010 lie in the range and differ by 10, so
  every pair inside the sequence is a small step; but the first call takes its delta from
  the initial stored reading 0, the difference 40000 exceeds half the period and is
  corrected, and the position ends at \<open>-25525\<close>: neither the sum 10 of the differences
  inside the sequence nor the sum 40010 of the differences counted from 0.
\<close>

theorem reads_unwrapped_sum_counterexample:
  "(0::int) \<le> 40000 \<and> (40000::int) < 65535 \<and> (0::int) \<le> 40010 \<and> (40010::int) < 65535
   \<and> pairs_small 65535 [40000, 40010] \<and> pairs_small 65536 [40000, 40010]
   \<and> true_position (reads init [40000, 40010]) = - 25525
   \<and> true_position (reads init [40000, 40010]) \<noteq> sum_deltas 40000 [40010]
   \<and> true_position (reads init [40000, 40010]) \<noteq> sum_deltas 0 [40000, 40010]"
  by (simp add: read_fields init_fields corrected_def)

text \<open>
  C5, amended. When the first reading, too, differs from the initial stored reading 0 by
  less than half the modulus \<open>m\<close> (the period 65535 or the counter's range 65536), and each
  consecutive pair does, the position after reading the whole sequence from a new object
  is the plain sum of the consecutive differences, the first one counted from 0; that sum
  is the last reading.
\<close>

theorem reads_unwrapped_sum:
  assumes "m \<le> 2 ^ 16" and "steps_small m 0 cs"
  shows "true_position (reads init cs) = sum_deltas 0 cs
    \<and> true_position (reads init cs) = last (0 # cs)"
proof -
  have "m \<le> period init + 1"
    using assms(1) by (simp add: init_fields)
  moreover have "steps_small m (new_tick init) cs"
    using assms(2) by (simp add: init_fields)
  ultimately have
    "true_position (reads init cs) = true_position init + sum_deltas (new_tick init) cs"
    by (rule reads_small_steps)
  then have "true_position (reads init cs) = sum_deltas 0 cs"
    by (simp add: init_fields)
  then show ?thesis
    by (simp add: sum_deltas_last)
qed

theorem reads_unwrapped_sum_witness:
  "(65536::int) \<le> 2 ^ 16 \<and> steps_small 65536 0 [100, 30000, 60000, 65000, 40000]
   \<and> sum_deltas 0 [100, 30000, 60000, 65000, 40000] = 40000
   \<and> true_position (reads init [100, 30000, 60000, 65000, 40000]) = 40000"
  using reads_unwrapped_sum [of 65536 "[100, 30000, 60000, 65000, 40000]"]
  by simp

end
